theory Spec2Isabelle
  imports Complex_Main
begin

section \<open>The holiday scene: data model\<close>

text \<open>
  The program is a single TypeScript class \<open>HolidayApp\<close> (with, in the later revision,
  a helper class \<open>Meteor\<close>) driving a particle scene. Two revisions of the source are
  present; they agree on every function modelled here except that the later one has
  ten themes instead of five and adds the meteors.

  JavaScript numbers are modelled as exact reals: IEEE rounding (of doubles, and of the
  single-precision stores into a \<open>Float32Array\<close>), infinities and NaN are not part of
  the model. A \<open>Float32Array\<close> is a \<open>real list\<close> of fixed length: a store outside
  the range is ignored, as \<open>list_update\<close> does.

  \<open>Math.random()\<close> is a source of draws \<open>src :: nat \<Rightarrow> real\<close> together with the
  number \<open>k\<close> of draws taken so far; a function that calls it takes \<open>src\<close> and \<open>k\<close>
  and returns the new count.
\<close>

datatype Mode = TREE | SCATTER

record Theme =
  needle :: nat
  glow :: nat
  ornaments :: "nat list"

text \<open>The table of the later revision (ten themes) and that of the earlier one (five).\<close>

definition THEMES :: "(string \<times> Theme) list" where
  "THEMES =
    [(''classic'', \<lparr> needle = 0x05331a, glow = 0x77cc99,
        ornaments = [0xffd700, 0xff3333, 0xffffff, 0xffbbbb] \<rparr>),
     (''gold'', \<lparr> needle = 0x5a4a15, glow = 0xffd700,
        ornaments = [0xffffff, 0xffe082, 0xffb74d, 0xffffff] \<rparr>),
     (''crimson'', \<lparr> needle = 0x3d0000, glow = 0xff4d4d,
        ornaments = [0xffffff, 0xffd700, 0xff9999, 0xffbbbb] \<rparr>),
     (''midnight'', \<lparr> needle = 0x001533, glow = 0x4dd2ff,
        ornaments = [0xffffff, 0x90caf9, 0xb3e5fc, 0x81d4fa] \<rparr>),
     (''snow'', \<lparr> needle = 0xe0e0e0, glow = 0xb3e5fc,
        ornaments = [0x4dd2ff, 0xffffff, 0x90caf9, 0xffd700] \<rparr>),
     (''rose'', \<lparr> needle = 0x4a1020, glow = 0xffaabb,
        ornaments = [0xffffff, 0xffd700, 0xf48fb1, 0xec407a] \<rparr>),
     (''amethyst'', \<lparr> needle = 0x1a0a33, glow = 0xba68c8,
        ornaments = [0xffffff, 0x9575cd, 0x7b1fa2, 0xe1bee7] \<rparr>),
     (''emerald'', \<lparr> needle = 0x002a1a, glow = 0x00e676,
        ornaments = [0xffffff, 0x81c784, 0x4caf50, 0xffd700] \<rparr>),
     (''cyber'', \<lparr> needle = 0x050505, glow = 0x00e5ff,
        ornaments = [0xff00ff, 0x00e5ff, 0x76ff03, 0xffffff] \<rparr>),
     (''sepia'', \<lparr> needle = 0x3e2723, glow = 0xffb300,
        ornaments = [0xd4af37, 0x8d6e63, 0xfff8e1, 0xa1887f] \<rparr>)]"

definition THEMES_earlier :: "(string \<times> Theme) list" where
  "THEMES_earlier = take 5 THEMES"

text \<open>
  \<open>THEMES[name]\<close> is a property read on an object literal. It yields the theme for an
  own key, \<open>undefined\<close> for a name that is no property at all, and for the property names
  of \<open>Object.prototype\<close> the inherited member, an object that has none of \<open>needle\<close>,
  \<open>glow\<close>, \<open>ornaments\<close>.
\<close>

datatype theme_ref = OwnTheme Theme | Inherited | Undefined

definition object_prototype_keys :: "string list" where
  "object_prototype_keys =
    [''constructor'', ''hasOwnProperty'', ''isPrototypeOf'', ''propertyIsEnumerable'',
     ''toLocaleString'', ''toString'', ''valueOf'', ''__proto__'', ''__defineGetter__'',
     ''__defineSetter__'', ''__lookupGetter__'', ''__lookupSetter__'']"

definition lookup_theme :: "(string \<times> Theme) list \<Rightarrow> string \<Rightarrow> theme_ref" where
  "lookup_theme themes name =
     (case map_of themes name of
        Some t \<Rightarrow> OwnTheme t
      | None \<Rightarrow> if name \<in> set object_prototype_keys then Inherited else Undefined)"

record config =
  treeParticleCount :: nat
  galaxyParticleCount :: nat
  dustCount :: nat
  meteorCount :: nat
  treeHeight :: real
  treeRadius :: real
  tiers :: nat

definition CONFIG :: config where
  "CONFIG = \<lparr> treeParticleCount = 100000, galaxyParticleCount = 60000, dustCount = 4000,
     meteorCount = 6, treeHeight = 95, treeRadius = 52, tiers = 30 \<rparr>"

record AppState =
  mode :: Mode
  theme :: string
  handX :: real
  handY :: real
  isPointerDown :: bool
  pointerX :: real
  pointerY :: real
  manualRotX :: real
  manualRotY :: real
  clickStartPos :: "real \<times> real"

text \<open>The state literal assigned in the constructor.\<close>

definition initial_state :: AppState where
  "initial_state = \<lparr> mode = TREE, theme = ''classic'', handX = 0, handY = 0,
     isPointerDown = False, pointerX = 0, pointerY = 0, manualRotX = 0, manualRotY = 0,
     clickStartPos = (0, 0) \<rparr>"

datatype vec3 = Vector3 (vx: real) (vy: real) (vz: real)

section \<open>Pointer handlers\<close>

record PointerEvent =
  clientX :: real
  clientY :: real
  tagName :: string


definition onPointerMove :: "PointerEvent \<Rightarrow> AppState \<Rightarrow> AppState" where
  "onPointerMove e s =
     (if \<not> isPointerDown s then s
      else let dx = clientX e - pointerX s;
               dy = clientY e - pointerY s
           in s \<lparr> manualRotY := manualRotY s + dx * 0.005,
                   manualRotX := manualRotX s + dy * 0.005,
                   pointerX := clientX e, pointerY := clientY e \<rparr>)"

text \<open>\<open>Array.prototype.indexOf\<close>: the first index of the element, or \<open>-1\<close>.\<close>

fun indexOf :: "'a list \<Rightarrow> 'a \<Rightarrow> int" where
  "indexOf [] a = -1"
| "indexOf (b # bs) a =
     (if b = a then 0 else (let r = indexOf bs a in if r < 0 then -1 else r + 1))"

definition modes :: "Mode list" where
  "modes = [TREE, SCATTER]"

definition next_mode :: "Mode \<Rightarrow> Mode" where
  "next_mode m = modes ! nat ((indexOf modes m + 1) mod int (length modes))"

definition onPointerUp :: "PointerEvent \<Rightarrow> AppState \<Rightarrow> AppState" where
  "onPointerUp e s =
     (if \<not> isPointerDown s then s
      else let s1 = s \<lparr> isPointerDown := False \<rparr>;
               dist = sqrt ((clientX e - fst (clickStartPos s1)) ^ 2
                          + (clientY e - snd (clickStartPos s1)) ^ 2)
           in if dist < 5 then s1 \<lparr> mode := next_mode (mode s1) \<rparr> else s1)"

section \<open>Per-frame update\<close>

text \<open>\<open>THREE.MathUtils.lerp\<close> of three.js: \<open>(1 - t) * x + t * y\<close>.\<close>

definition lerp :: "real \<Rightarrow> real \<Rightarrow> real \<Rightarrow> real" where
  "lerp x y t = (1 - t) * x + t * y"

text \<open>
  The animated scalars of the scene objects that \<open>update\<close> writes: the rotation of the
  main group, the floor's rotation and height, the heart's scale (\<open>setScalar\<close> writes all
  three axes), spin and emissive intensity.
\<close>

record scene =
  mainGroup_rotation_x :: real
  mainGroup_rotation_y :: real
  galaxyFloor_rotation_y :: real
  galaxyFloor_position_y :: real
  heart_scale :: vec3
  heart_rotation_y :: real
  heart_emissiveIntensity :: real

text \<open>
  The hand tracker is an external collaborator: \<open>hand\<close> is landmark 9 of the first
  detected hand, or \<open>None\<close> when the tracker is not ready or sees no hand.
\<close>

definition update_hand :: "(real \<times> real) option \<Rightarrow> AppState \<Rightarrow> AppState" where
  "update_hand hand s =
     (case hand of
        None \<Rightarrow> s
      | Some (hx, hy) \<Rightarrow> s \<lparr> handX := (hx - 0.5) * 2, handY := (hy - 0.5) * 2 \<rparr>)"

definition targetFloorY :: "Mode \<Rightarrow> real" where
  "targetFloorY m = (if m = TREE then -52 else -140)"

definition heartTarget :: "Mode \<Rightarrow> real \<Rightarrow> real" where
  "heartTarget m time = (if m = TREE then 1 else 0) * (1 + sin (time * 2.5) * 0.06)"

text \<open>The part of \<open>update\<close> before the meteors and the particle loop.\<close>

definition update_scene :: "real \<Rightarrow> AppState \<Rightarrow> scene \<Rightarrow> scene" where
  "update_scene time s sc =
     (let targetRotY = handX s * 0.35 + manualRotY s;
          targetRotX = handY s * 0.18 + manualRotX s;
          ry = mainGroup_rotation_y sc + (targetRotY - mainGroup_rotation_y sc) * 0.05;
          rx = mainGroup_rotation_x sc + (targetRotX - mainGroup_rotation_x sc) * 0.05;
          fy = lerp (galaxyFloor_position_y sc) (targetFloorY (mode s)) 0.05;
          hs = lerp (vx (heart_scale sc)) (heartTarget (mode s) time) 0.1
      in sc \<lparr> mainGroup_rotation_y := ry,
              mainGroup_rotation_x := rx,
              galaxyFloor_rotation_y := galaxyFloor_rotation_y sc + 0.003,
              galaxyFloor_position_y := fy,
              heart_scale := Vector3 hs hs hs,
              heart_rotation_y := heart_rotation_y sc + 0.006,
              heart_emissiveIntensity := 1.5 + sin (time * 4) * 0.7 \<rparr>)"

text \<open>
  The targets that the particle loop of \<open>update\<close> computes for particle \<open>i\<close>, as
  functions of the values it reads: the four descriptor entries
  \<open>treeBranchParams[4i .. 4i+3]\<close> and the three jitters \<open>treeJitters[3i .. 3i+2]\<close>.
  \<open>Math.pow\<close> is \<open>powr\<close> (both give 0 at base 0 with a positive exponent). The last
  step of the loop body, which moves the position by 0.06 of its offset from the target
  and stores it in single precision, depends on that rounding and is left out.
\<close>

definition treeTarget :: "config \<Rightarrow> real \<Rightarrow> nat \<Rightarrow> real \<Rightarrow> real \<Rightarrow> real \<Rightarrow> real \<Rightarrow> vec3 \<Rightarrow> vec3" where
  "treeTarget cfg time i distAlongBranch tierIndex branchAngle flag jitter =
     (let isBranch = (flag = 1);
          tierT = tierIndex / real (tiers cfg);
          tierHeight = (1 - tierT) * treeHeight cfg - treeHeight cfg / 2 + 12;
          tierRadiusMax = (tierT powr 1.1) * treeRadius cfg;
          subAngleScale = (if isBranch then 0.2 else 2.5);
          actualAngle = branchAngle + (sin (real i * 0.01) * subAngleScale * (1 - distAlongBranch));
          droop = (distAlongBranch powr 1.4) * 7;
          sway = sin (time * 0.4 + tierIndex * 0.6) * 0.15;
          branchRadius = distAlongBranch * tierRadiusMax;
          tx = cos (actualAngle + sway) * branchRadius + vx jitter;
          calculatedTy = tierHeight - droop + vy jitter + sin (time * 0.8 + tierIndex) * 0.5;
          ty = max calculatedTy (-51.8);
          tz = sin (actualAngle + sway) * branchRadius + vz jitter
      in Vector3 tx ty tz)"

definition scatterTarget :: "config \<Rightarrow> real \<Rightarrow> nat \<Rightarrow> vec3" where
  "scatterTarget cfg time i =
     (let t = real i / real (treeParticleCount cfg);
          r = 90 + sin (t * 300 + time) * 60
      in Vector3 (cos (t * pi * 4 + time * 0.4) * r)
                 (sin (t * 180 + time * 0.2) * r)
                 (sin (t * pi * 4 + time * 0.4) * r))"

section \<open>Meteors\<close>

text \<open>
  The \<open>Vector3\<close> methods of three.js that \<open>Meteor\<close> uses. \<open>normalize\<close> divides by
  \<open>length() || 1\<close>, so the zero vector stays as it is.
\<close>

definition vec_length :: "vec3 \<Rightarrow> real" where
  "vec_length v = sqrt (vx v * vx v + vy v * vy v + vz v * vz v)"

definition multiplyScalar3 :: "vec3 \<Rightarrow> real \<Rightarrow> vec3" where
  "multiplyScalar3 v s = Vector3 (vx v * s) (vy v * s) (vz v * s)"

definition normalize :: "vec3 \<Rightarrow> vec3" where
  "normalize v = multiplyScalar3 v (1 / (if vec_length v = 0 then 1 else vec_length v))"

definition vec_add :: "vec3 \<Rightarrow> vec3 \<Rightarrow> vec3" where
  "vec_add a b = Vector3 (vx a + vx b) (vy a + vy b) (vz a + vz b)"

text \<open>
  A meteor: the position, orientation and scale of its mesh, and its velocity. The
  orientation is kept as the three.js call that set it: the identity of a new mesh, or
  \<open>Quaternion.setFromUnitVectors\<close> of two vectors.
\<close>

datatype quaternion = Identity | SetFromUnitVectors vec3 vec3

record Meteor =
  mesh_position :: vec3
  mesh_quaternion :: quaternion
  mesh_scale :: vec3
  velocity :: vec3

definition Meteor_reset :: "(nat \<Rightarrow> real) \<Rightarrow> Meteor \<times> nat \<Rightarrow> Meteor \<times> nat" where
  "Meteor_reset src = (\<lambda>(m, k).
     let zBias = (src k) ^ 2;
         startZ = -3000 + zBias * 2700;
         frustumWidth = \<bar>startZ\<bar> * 1.6;
         startX = - frustumWidth / 2 - (src (k + 1) * frustumWidth * 0.5);
         startY = 800 + src (k + 2) * 800;
         speed = 3.5 + src (k + 3) * 5.5;
         spread = (src (k + 4) - 0.5) * 0.1;
         vel = multiplyScalar3
                 (normalize (Vector3 1.4 (-1.0 + spread) ((src (k + 5) - 0.5) * 0.2))) speed;
         up = Vector3 0 1 0;
         dir = normalize vel;
         perspectiveCompensation = 1.0 + (1.0 - zBias) * 2.0;
         s = perspectiveCompensation * (0.8 + src (k + 6) * 1.5)
     in (m \<lparr> mesh_position := Vector3 startX startY startZ,
              velocity := vel,
              mesh_quaternion := SetFromUnitVectors up dir,
              mesh_scale := Vector3 s s s \<rparr>, k + 7))"

definition Meteor_update :: "(nat \<Rightarrow> real) \<Rightarrow> Meteor \<times> nat \<Rightarrow> Meteor \<times> nat" where
  "Meteor_update src = (\<lambda>(m, k).
     let m1 = m \<lparr> mesh_position := vec_add (mesh_position m) (velocity m) \<rparr>
     in if vy (mesh_position m1) < -1200 \<or> vx (mesh_position m1) > 3500
        then Meteor_reset src (m1, k)
        else (m1, k))"

text \<open>\<open>this.meteors.forEach(m => m.update())\<close>, in order.\<close>

fun update_meteors :: "(nat \<Rightarrow> real) \<Rightarrow> Meteor list \<Rightarrow> nat \<Rightarrow> Meteor list \<times> nat" where
  "update_meteors src [] k = ([], k)"
| "update_meteors src (m # ms) k =
     (let (m', k1) = Meteor_update src (m, k);
          (ms', k2) = update_meteors src ms k1
      in (m' # ms', k2))"

section \<open>Tree particles: generation and recolouring\<close>

text \<open>
  \<open>THREE.Color\<close> is three.js's, and what its methods compute is left open: a colour is
  kept as the sequence of calls that made it, \<open>setHex\<close> on a fresh colour (with \<open>None\<close>
  for the argument \<open>undefined\<close>), then \<open>multiplyScalar\<close> or \<open>offsetHSL\<close>. None of
  them throws. An entry of the colour buffer is the initial zero or one channel of such
  a colour.
\<close>

datatype Color = SetHex "nat option" | MultiplyScalar Color real | OffsetHSL Color real real real

datatype channel = Chan_r | Chan_g | Chan_b

datatype color_entry = Zero | Channel channel Color

datatype js_error = TypeError

datatype outcome = Normal | Threw js_error

record HolidayApp =
  state :: AppState
  sc :: scene
  meteors :: "Meteor list"
  positions :: "real list"
  colors :: "color_entry list"
  colors_needsUpdate :: bool
  treeJitters :: "real list"
  treeBranchParams :: "real list"

text \<open>
  A \<open>for (let i = 0; i < n; i++)\<close> loop whose body may throw: \<open>for_loop i m\<close> runs the
  body for \<open>i, i+1, \<dots>, i+m-1\<close> and stops at the first exception, keeping what the
  body has written by then.
\<close>

fun for_loop :: "nat \<Rightarrow> nat \<Rightarrow> (nat \<Rightarrow> 's \<Rightarrow> outcome \<times> 's) \<Rightarrow> 's \<Rightarrow> outcome \<times> 's" where
  "for_loop i 0 body s = (Normal, s)"
| "for_loop i (Suc m) body s =
     (case body i s of
        (Normal, s') \<Rightarrow> for_loop (Suc i) m body s'
      | (Threw e, s') \<Rightarrow> (Threw e, s'))"

text \<open>Reading an array element: \<open>None\<close> is \<open>undefined\<close>, for an index out of range.\<close>

definition array_get :: "'a list \<Rightarrow> int \<Rightarrow> 'a option" where
  "array_get xs n = (if 0 \<le> n \<and> nat n < length xs then Some (xs ! nat n) else None)"

text \<open>
  The colour of a particle, the same text in \<open>initTreeParticles\<close> and in
  \<open>updateTreeColors\<close>: the \<open>if (isBranch) \<dots> else \<dots>\<close> statement after \<open>r\<close> has been
  drawn. Reading a property of \<open>undefined\<close> throws \<open>TypeError\<close>; reading a missing
  property of an object gives \<open>undefined\<close>. In the ornament branch the draw is taken
  before \<open>theme.ornaments.length\<close> is read.
\<close>

definition themedColor ::
  "theme_ref \<Rightarrow> bool \<Rightarrow> real \<Rightarrow> (nat \<Rightarrow> real) \<Rightarrow> nat \<Rightarrow> (js_error + Color) \<times> nat" where
  "themedColor th isBranch r src k =
     (if isBranch then
        (case th of
           Undefined \<Rightarrow> (Inl TypeError, k)
         | Inherited \<Rightarrow> (Inr (MultiplyScalar (SetHex None) 1.02), k)
         | OwnTheme t \<Rightarrow> (Inr (MultiplyScalar (SetHex (Some (glow t))) 1.02), k))
      else if r < 0.85 then
        (case th of
           Undefined \<Rightarrow> (Inl TypeError, k)
         | Inherited \<Rightarrow>
             (Inr (OffsetHSL (SetHex None) 0 0 ((src k - 0.5) * 0.05)), Suc k)
         | OwnTheme t \<Rightarrow>
             (Inr (OffsetHSL (SetHex (Some (needle t))) 0 0 ((src k - 0.5) * 0.05)),
              Suc k))
      else
        (case th of
           Undefined \<Rightarrow> (Inl TypeError, k)
         | Inherited \<Rightarrow> (Inl TypeError, Suc k)
         | OwnTheme t \<Rightarrow>
             (Inr (MultiplyScalar
                    (SetHex (array_get (ornaments t)
                               \<lfloor>src k * real (length (ornaments t))\<rfloor>)) 0.9),
              Suc k)))"

definition write_color :: "nat \<Rightarrow> Color \<Rightarrow> color_entry list \<Rightarrow> color_entry list" where
  "write_color idx c cs =
     cs[idx := Channel Chan_r c, idx + 1 := Channel Chan_g c, idx + 2 := Channel Chan_b c]"

text \<open>
  The body of the loop of \<open>initTreeParticles\<close> for particle \<open>i\<close>. The entries written
  are the values as the expressions of the source give them in exact arithmetic.
\<close>

definition initTreeParticle ::
  "config \<Rightarrow> theme_ref \<Rightarrow> (nat \<Rightarrow> real) \<Rightarrow> nat \<Rightarrow> HolidayApp \<times> nat
   \<Rightarrow> outcome \<times> (HolidayApp \<times> nat)" where
  "initTreeParticle cfg th src i = (\<lambda>(app, k).
     let idx = i * 3;
         bIdx = i * 4;
         pos = (positions app)[idx := (src k - 0.5) * 400,
                               idx + 1 := (src (k + 1) - 0.5) * 400,
                               idx + 2 := (src (k + 2) - 0.5) * 400];
         isBranch = (src (k + 3) < 0.3);
         tier = \<lfloor>(src (k + 4) powr 0.35) * real (tiers cfg)\<rfloor>;
         branchesPerTier = 8 + real_of_int tier;
         branchAngle = (src (k + 5) * branchesPerTier) * (pi * 2 / branchesPerTier);
         distFromCenter = src (k + 6);
         params = (treeBranchParams app)[bIdx := distFromCenter,
                                         bIdx + 1 := real_of_int tier,
                                         bIdx + 2 := branchAngle,
                                         bIdx + 3 := (if isBranch then 1 else 0)];
         jitterScale = (if isBranch then 0.3 else 3.0);
         jit = (treeJitters app)[idx := (src (k + 7) - 0.5) * jitterScale,
                                 idx + 1 := (src (k + 8) - 0.5) * jitterScale,
                                 idx + 2 := (src (k + 9) - 0.5) * jitterScale];
         r = src (k + 10);
         app1 = app \<lparr> positions := pos, treeJitters := jit, treeBranchParams := params \<rparr>
     in case themedColor th isBranch r src (k + 11) of
          (Inl e, k') \<Rightarrow> (Threw e, (app1, k'))
        | (Inr c, k') \<Rightarrow> (Normal, (app1 \<lparr> colors := write_color idx c (colors app1) \<rparr>, k')))"

text \<open>
  \<open>initTreeParticles\<close>: four fresh zero-filled arrays, the loop, and then the position
  and colour arrays become the attributes of the geometry. When the loop throws they
  are never attached, while the jitter and descriptor arrays, assigned to the fields
  before the loop, keep what was written.
\<close>

definition initTreeParticles ::
  "config \<Rightarrow> (string \<times> Theme) list \<Rightarrow> (nat \<Rightarrow> real) \<Rightarrow> HolidayApp \<times> nat
   \<Rightarrow> outcome \<times> (HolidayApp \<times> nat)" where
  "initTreeParticles cfg themes src = (\<lambda>(app, k).
     let n = treeParticleCount cfg;
         app0 = app \<lparr> positions := replicate (n * 3) 0, colors := replicate (n * 3) Zero,
                      treeJitters := replicate (n * 3) 0,
                      treeBranchParams := replicate (n * 4) 0 \<rparr>;
         th = lookup_theme themes (theme (state app))
     in case for_loop 0 n (initTreeParticle cfg th src) (app0, k) of
          (Normal, s') \<Rightarrow> (Normal, s')
        | (Threw e, (app', k')) \<Rightarrow>
            (Threw e, (app' \<lparr> positions := positions app, colors := colors app \<rparr>, k')))"

text \<open>The body of the loop of \<open>updateTreeColors\<close> for particle \<open>i\<close>.\<close>

definition updateTreeColor ::
  "theme_ref \<Rightarrow> (nat \<Rightarrow> real) \<Rightarrow> nat \<Rightarrow> HolidayApp \<times> nat
   \<Rightarrow> outcome \<times> (HolidayApp \<times> nat)" where
  "updateTreeColor th src i = (\<lambda>(app, k).
     let idx = i * 3;
         bIdx = i * 4;
         isBranch = (array_get (treeBranchParams app) (int (bIdx + 3)) = Some 1);
         r = src k
     in case themedColor th isBranch r src (Suc k) of
          (Inl e, k') \<Rightarrow> (Threw e, (app, k'))
        | (Inr c, k') \<Rightarrow> (Normal, (app \<lparr> colors := write_color idx c (colors app) \<rparr>, k')))"

definition updateTreeColors ::
  "config \<Rightarrow> (string \<times> Theme) list \<Rightarrow> (nat \<Rightarrow> real) \<Rightarrow> HolidayApp \<times> nat
   \<Rightarrow> outcome \<times> (HolidayApp \<times> nat)" where
  "updateTreeColors cfg themes src = (\<lambda>(app, k).
     let th = lookup_theme themes (theme (state app))
     in case for_loop 0 (treeParticleCount cfg) (updateTreeColor th src) (app, k) of
          (Normal, (app', k')) \<Rightarrow> (Normal, (app' \<lparr> colors_needsUpdate := True \<rparr>, k'))
        | (Threw e, s') \<Rightarrow> (Threw e, s'))"

text \<open>
  The \<open>change\<close> listener of the theme selector: the selected value is stored, cast to
  \<open>ThemeName\<close> without a check, and the tree is recoloured.
\<close>

definition onThemeChange ::
  "config \<Rightarrow> (string \<times> Theme) list \<Rightarrow> (nat \<Rightarrow> real) \<Rightarrow> string
   \<Rightarrow> HolidayApp \<times> nat \<Rightarrow> outcome \<times> (HolidayApp \<times> nat)" where
  "onThemeChange cfg themes src value = (\<lambda>(app, k).
     updateTreeColors cfg themes src (app \<lparr> state := (state app) \<lparr> theme := value \<rparr> \<rparr>, k))"

section \<open>Concrete states\<close>

text \<open>
  The scene scalars once the constructor has run (the floor is placed at \<open>-52\<close>, a new
  mesh has scale 1 and no rotation), and the application object as the constructor has
  it when it calls \<open>initTreeParticles\<close>: no particle buffers and no meteors yet.
\<close>

definition initial_scene :: scene where
  "initial_scene = \<lparr> mainGroup_rotation_x = 0, mainGroup_rotation_y = 0,
     galaxyFloor_rotation_y = 0, galaxyFloor_position_y = -52, heart_scale = Vector3 1 1 1,
     heart_rotation_y = 0, heart_emissiveIntensity = 1.5 \<rparr>"

definition app_before_init :: HolidayApp where
  "app_before_init = \<lparr> state = initial_state, sc = initial_scene, meteors = [],
     positions = [], colors = [], colors_needsUpdate = False, treeJitters = [],
     treeBranchParams = [] \<rparr>"

text \<open>A pointer event on the canvas at \<open>(x, y)\<close>.\<close>

definition canvas_event :: "real \<Rightarrow> real \<Rightarrow> PointerEvent" where
  "canvas_event x y = \<lparr> clientX = x, clientY = y, tagName = ''CANVAS'' \<rparr>"


text \<open>
  A configuration with a single particle, two fixed sources of draws, and the
  application after generating that particle from draws that are all zero.
\<close>

definition one_particle :: config where
  "one_particle = CONFIG \<lparr> treeParticleCount := 1 \<rparr>"

definition zero_draws :: "nat \<Rightarrow> real" where
  "zero_draws = (\<lambda>_. 0)"

definition angle_draws :: "nat \<Rightarrow> real" where
  "angle_draws = (\<lambda>j. if j = 5 then 1 / 16 else 0)"

definition app_one :: HolidayApp where
  "app_one = fst (snd (initTreeParticles one_particle THEMES zero_draws (app_before_init, 0)))"

definition falling_meteor :: Meteor where
  "falling_meteor = \<lparr> mesh_position = Vector3 100 (-1199) (-500), mesh_quaternion = Identity,
     mesh_scale = Vector3 1 1 1, velocity = Vector3 5 (-4) 0 \<rparr>"

text \<open>The invariant of the recolouring loop.\<close>

definition only_colors_differ :: "HolidayApp \<Rightarrow> HolidayApp \<Rightarrow> bool" where
  "only_colors_differ a b =
     (state b = state a \<and> sc b = sc a \<and> meteors b = meteors a \<and> positions b = positions a
      \<and> treeJitters b = treeJitters a \<and> treeBranchParams b = treeBranchParams a
      \<and> colors_needsUpdate b = colors_needsUpdate a \<and> length (colors b) = length (colors a))"

section \<open>The tree field and the scene scalars\<close>

text \<open>
  C5. For every descriptor, jitter, particle index and elapsed time, the height of the
  TREE-mode target is at least the floor limit \<open>-51.8\<close>.
\<close>

theorem tree_target_above_floor:
  "vy (treeTarget cfg time i distAlongBranch tierIndex branchAngle flag jitter) \<ge> -51.8"
  by (simp add: treeTarget_def Let_def)

lemma lerp_smoothing: "lerp x y t = x + (y - x) * t"
  by (simp add: lerp_def algebra_simps)

text \<open>
  C6, as stated, fails for the heart: from scale 1 with target 0 (SCATTER mode) one frame
  gives 0.9, where smoothing with factor 0.05 would give 0.95.
\<close>

theorem heart_scale_factor_counterexample:
  "vx (heart_scale (update_scene 0 (initial_state \<lparr> mode := SCATTER \<rparr>) initial_scene)) = 0.9
   \<and> vx (heart_scale initial_scene)
       + (heartTarget SCATTER 0 - vx (heart_scale initial_scene)) * 0.05 = 0.95"
  by (simp add: update_scene_def initial_scene_def initial_state_def heartTarget_def lerp_def
      Let_def)

text \<open>
  C6, amended. Each frame the floor's vertical offset moves toward its target by
  \<open>new = old + (target - old) * 0.05\<close>, and the heart's scale moves toward its target by
  the same rule with the factor \<open>0.1\<close>, on all three axes.
\<close>

theorem floor_and_heart_smoothing:
  "galaxyFloor_position_y (update_scene time s c)
     = galaxyFloor_position_y c + (targetFloorY (mode s) - galaxyFloor_position_y c) * 0.05
   \<and> heart_scale (update_scene time s c)
     = (let h = vx (heart_scale c) + (heartTarget (mode s) time - vx (heart_scale c)) * 0.1
        in Vector3 h h h)"
  by (simp add: update_scene_def Let_def lerp_smoothing)

section \<open>Pointer interaction\<close>














text \<open>
  C10. While no pointer-down is active, a pointer-up leaves the whole interaction state
  as it is, and so does a pointer-move (in particular the mode and both manual
  rotations are unchanged).
\<close>

theorem pointer_events_without_down_are_noops:
  "\<not> isPointerDown s \<Longrightarrow> onPointerUp e s = s \<and> onPointerMove e s = s"
  by (simp add: onPointerUp_def onPointerMove_def)

theorem pointer_events_without_down_are_noops_witness:
  "\<not> isPointerDown initial_state
   \<and> onPointerUp (canvas_event 3 4) initial_state = initial_state
   \<and> onPointerMove (canvas_event 3 4) initial_state = initial_state"
proof -
  have h: "\<not> isPointerDown initial_state" by (simp add: initial_state_def)
  show ?thesis
    using h pointer_events_without_down_are_noops [OF h, of "canvas_event 3 4"] by simp
qed

section \<open>Meteor recycling\<close>

lemma reset_position_eq:
  "mesh_position (fst (Meteor_reset src (m, k))) =
     Vector3 (- (\<bar>-3000 + (src k)^2 * 2700\<bar> * 1.6) / 2
                - (src (k + 1) * (\<bar>-3000 + (src k)^2 * 2700\<bar> * 1.6) * 0.5))
             (800 + src (k + 2) * 800)
             (-3000 + (src k)^2 * 2700)"
  unfolding Meteor_reset_def Let_def by simp

lemma reset_position:
  assumes "\<forall>j. 0 \<le> src j \<and> src j < 1"
  shows "vy (mesh_position (fst (Meteor_reset src (m, k)))) \<ge> 800
       \<and> vx (mesh_position (fst (Meteor_reset src (m, k)))) < 0"
proof -
  have u0: "0 \<le> src k" "src k < 1" "0 \<le> src (k + 1)" "0 \<le> src (k + 2)"
    using assms by auto
  have z: "(src k)^2 < 1" using u0 by (simp add: power_less_one_iff abs_square_less_1)
  define fw where "fw = \<bar>-3000 + (src k)^2 * 2700\<bar> * 1.6"
  have sz: "-3000 + (src k)^2 * 2700 < 0" using z by linarith
  then have fwp: "fw > 0" unfolding fw_def by simp
  have "src (k + 1) * fw * 0.5 \<ge> 0" using u0 fwp by simp
  then have sx: "- fw / 2 - (src (k + 1) * fw * 0.5) < 0" using fwp by linarith
  have sy: "800 + src (k + 2) * 800 \<ge> 800" using u0 by simp
  have "mesh_position (fst (Meteor_reset src (m, k))) =
          Vector3 (- fw / 2 - (src (k + 1) * fw * 0.5)) (800 + src (k + 2) * 800)
                  (-3000 + (src k)^2 * 2700)"
    unfolding fw_def by (rule reset_position_eq)
  then show ?thesis using sx sy by (simp only: vec3.sel)
qed

text \<open>
  C8. When every draw lies in \<open>[0, 1)\<close> and a meteor's position after the translation
  of a frame has height below \<open>-1200\<close> or horizontal coordinate above \<open>3500\<close>, the
  meteor leaves that frame's update in the state \<open>reset\<close> gives it: its height is at least
  800 and its horizontal coordinate is negative.
\<close>

theorem recycled_meteor_respawns:
  assumes "\<forall>j. 0 \<le> src j \<and> src j < 1"
    and "vy (mesh_position m) + vy (velocity m) < -1200
         \<or> vx (mesh_position m) + vx (velocity m) > 3500"
  shows "Meteor_update src (m, k)
           = Meteor_reset src (m \<lparr> mesh_position := vec_add (mesh_position m) (velocity m) \<rparr>, k)
       \<and> vy (mesh_position (fst (Meteor_update src (m, k)))) \<ge> 800
       \<and> vx (mesh_position (fst (Meteor_update src (m, k)))) < 0"
proof -
  have "Meteor_update src (m, k)
          = Meteor_reset src (m \<lparr> mesh_position := vec_add (mesh_position m) (velocity m) \<rparr>, k)"
    using assms(2) by (simp add: Meteor_update_def Let_def vec_add_def)
  then show ?thesis using reset_position [OF assms(1)] by simp
qed

theorem recycled_meteor_respawns_witness:
  "(\<forall>j. 0 \<le> zero_draws j \<and> zero_draws j < 1)
   \<and> (vy (mesh_position falling_meteor) + vy (velocity falling_meteor) < -1200
      \<or> vx (mesh_position falling_meteor) + vx (velocity falling_meteor) > 3500)
   \<and> vy (mesh_position (fst (Meteor_update zero_draws (falling_meteor, 0)))) \<ge> 800
   \<and> vx (mesh_position (fst (Meteor_update zero_draws (falling_meteor, 0)))) < 0"
proof -
  have h1: "\<forall>j. 0 \<le> zero_draws j \<and> zero_draws j < 1" by (simp add: zero_draws_def)
  have h2: "vy (mesh_position falling_meteor) + vy (velocity falling_meteor) < -1200
      \<or> vx (mesh_position falling_meteor) + vx (velocity falling_meteor) > 3500"
    by (simp add: falling_meteor_def)
  show ?thesis
    using h1 h2 recycled_meteor_respawns [OF h1 h2, of 0] by blast
qed

section \<open>Tree particles\<close>

subsection \<open>Loops\<close>

lemma for_loop_invariant:
  assumes step: "\<And>i s out s'. P s \<Longrightarrow> body i s = (out, s') \<Longrightarrow> P s'"
  shows "P s \<Longrightarrow> P (snd (for_loop i m body s))"
proof (induction m arbitrary: i s)
  case 0
  then show ?case by simp
next
  case (Suc m)
  obtain out s' where b: "body i s = (out, s')" by (cases "body i s")
  have p': "P s'" using step [OF Suc.prems b] .
  show ?case
  proof (cases out)
    case Normal
    then show ?thesis using b Suc.IH [OF p'] by simp
  next
    case (Threw e)
    then show ?thesis using b p' by simp
  qed
qed

subsection \<open>Generation\<close>

lemma lookup_classic:
  "lookup_theme THEMES ''classic'' = OwnTheme \<lparr> needle = 0x05331a, glow = 0x77cc99,
     ornaments = [0xffd700, 0xff3333, 0xffffff, 0xffbbbb] \<rparr>"
  by (simp add: lookup_theme_def THEMES_def)

lemma lookup_nope: "lookup_theme THEMES ''nope'' = Undefined"
  by (simp add: lookup_theme_def THEMES_def object_prototype_keys_def)

lemma lookup_constructor: "lookup_theme THEMES ''constructor'' = Inherited"
  by (simp add: lookup_theme_def THEMES_def object_prototype_keys_def)

lemma replicate_3: "replicate 3 x = [x, x, x]"
  by (simp add: numeral_3_eq_3)

lemma replicate_4: "replicate 4 x = [x, x, x, x]"
  by (simp add: eval_nat_numeral)

lemma update_3: "[a, b, c, d][3 := v] = [a, b, c, v]"
  by (simp add: numeral_3_eq_3)

lemmas init_simps = replicate_3 replicate_4 update_3 initTreeParticles_def one_particle_def
  CONFIG_def app_before_init_def initial_state_def Let_def initTreeParticle_def
  themedColor_def write_color_def

lemma half_not_int: "(1 / 2 :: real) \<notin> \<int>"
proof
  assume "(1 / 2 :: real) \<in> \<int>"
  then obtain z :: int where "1 / 2 = real_of_int z" by (auto elim: Ints_cases)
  then have "real_of_int (2 * z) = real_of_int 1" by simp
  then have "2 * z = 1" by (simp only: of_int_eq_iff)
  then show False by presburger
qed

text \<open>
  C3. The generated branch angle is meant to be one of \<open>8 + tier\<close> equally spaced angles,
  an integer multiple of \<open>2\<pi> / (8 + tier)\<close>. The code does not do that: no floor is
  taken of \<open>Math.random() * branchesPerTier\<close>. Generating one particle with the tier
  draw 0 (tier 0, eight branches) and the angle draw \<open>1/16\<close> stores the descriptor
  \<open>[0, 0, \<pi>/8, 1]\<close>, and \<open>\<pi>/8\<close> is half of the spacing \<open>2\<pi>/8\<close>.
\<close>

theorem branch_angle_not_quantized:
  "treeBranchParams
     (fst (snd (initTreeParticles one_particle THEMES angle_draws (app_before_init, 0))))
     = [0, 0, pi / 8, 1]
   \<and> (pi / 8) / (2 * pi / (8 + 0)) \<notin> \<int>"
proof -
  have "(pi / 8) / (2 * pi / (8 + 0)) = (1 / 2 :: real)" by simp
  then show ?thesis
    using half_not_int by (simp add: init_simps lookup_classic angle_draws_def)
qed

subsection \<open>Recolouring\<close>

lemma length_write_color: "length (write_color idx c cs) = length cs"
  by (simp add: write_color_def)

lemma updateTreeColor_frame:
  assumes "only_colors_differ app (fst s)" "updateTreeColor th src i s = (out, s')"
  shows "only_colors_differ app (fst s')"
proof -
  obtain a k where s: "s = (a, k)" by (cases s)
  obtain res k' where t:
    "themedColor th (array_get (treeBranchParams a) (int (i * 4 + 3)) = Some 1) (src k) src
       (Suc k) = (res, k')"
    by (cases "themedColor th (array_get (treeBranchParams a) (int (i * 4 + 3)) = Some 1)
                 (src k) src (Suc k)")
  show ?thesis
    using assms s t
    by (cases res)
       (auto simp add: updateTreeColor_def Let_def only_colors_differ_def length_write_color)
qed

lemma updateTreeColors_frame:
  "only_colors_differ app (fst (snd (for_loop i m (updateTreeColor th src) (app, k))))"
proof (rule for_loop_invariant [where P = "\<lambda>s. only_colors_differ app (fst s)"])
  show "only_colors_differ app (fst (app, k))" by (simp add: only_colors_differ_def)
qed (rule updateTreeColor_frame)

text \<open>
  C4. For every configuration, theme table, source of draws and application state,
  \<open>updateTreeColors\<close> leaves the descriptor array and the jitter array exactly as they
  were, whether it completes or throws; the positions, the interaction state, the scene
  scalars and the meteors are unchanged too, so only the colour buffer is written.
\<close>

theorem updateTreeColors_writes_only_colors:
  "treeBranchParams (fst (snd (updateTreeColors cfg themes src (app, k)))) = treeBranchParams app
   \<and> treeJitters (fst (snd (updateTreeColors cfg themes src (app, k)))) = treeJitters app
   \<and> positions (fst (snd (updateTreeColors cfg themes src (app, k)))) = positions app
   \<and> state (fst (snd (updateTreeColors cfg themes src (app, k)))) = state app
   \<and> sc (fst (snd (updateTreeColors cfg themes src (app, k)))) = sc app
   \<and> meteors (fst (snd (updateTreeColors cfg themes src (app, k)))) = meteors app"
proof -
  let ?th = "lookup_theme themes (theme (state app))"
  let ?r = "for_loop 0 (treeParticleCount cfg) (updateTreeColor ?th src) (app, k)"
  have f: "only_colors_differ app (fst (snd ?r))" by (rule updateTreeColors_frame)
  obtain out a' k' where r: "?r = (out, (a', k'))" by (metis prod.collapse)
  show ?thesis
    using f r by (cases out) (simp_all add: updateTreeColors_def Let_def only_colors_differ_def)
qed

subsection \<open>Changing the theme\<close>

lemma themedColor_Undefined: "themedColor Undefined b r src k = (Inl TypeError, k)"
  by (simp add: themedColor_def)

lemma updateTreeColor_Undefined:
  "updateTreeColor Undefined src i (app, k) = (Threw TypeError, (app, Suc k))"
  by (simp add: updateTreeColor_def Let_def themedColor_Undefined)

lemma app_one_eq:
  "app_one = app_before_init \<lparr> positions := [-200, -200, -200],
      colors := [Channel Chan_r (MultiplyScalar (SetHex (Some 0x77cc99)) 1.02),
                 Channel Chan_g (MultiplyScalar (SetHex (Some 0x77cc99)) 1.02),
                 Channel Chan_b (MultiplyScalar (SetHex (Some 0x77cc99)) 1.02)],
      treeJitters := [-0.15, -0.15, -0.15],
      treeBranchParams := [0, 0, 0, 1] \<rparr>"
  by (simp add: app_one_def init_simps lookup_classic zero_draws_def)

text \<open>
  C9, as stated, fails twice. The handler does not reject a name outside the table: it
  stores \<open>nope\<close> in \<open>state.theme\<close> before anything is checked. And for the name
  \<open>constructor\<close>, which the table object inherits, the recolor step on a branch particle
  completes normally and overwrites the colours with \<open>setHex(undefined)\<close>.
\<close>

theorem invalid_theme_counterexample:
  "theme (state (fst (snd (onThemeChange one_particle THEMES zero_draws ''nope'' (app_one, 11)))))
     = ''nope''
   \<and> fst (onThemeChange one_particle THEMES zero_draws ''constructor'' (app_one, 11)) = Normal
   \<and> colors (fst (snd (onThemeChange one_particle THEMES zero_draws ''constructor'' (app_one, 11))))
       \<noteq> colors app_one"
  unfolding app_one_eq
  by (simp add: onThemeChange_def updateTreeColors_def Let_def
      lookup_nope lookup_constructor one_particle_def CONFIG_def updateTreeColor_def
      themedColor_def write_color_def array_get_def zero_draws_def app_before_init_def)

text \<open>
  C9, amended. The theme-change handler validates nothing: it stores the name in
  \<open>state.theme\<close> and runs the recolor step. For a name that the table does not resolve
  at all (\<open>THEMES[name]\<close> is \<open>undefined\<close>) and at least one particle, the recolor
  step throws a \<open>TypeError\<close> at the first particle, after one draw and before any colour
  is written: apart from the stored name the application is unchanged, and no other
  palette is substituted.
\<close>

theorem unknown_theme_stored_then_recolor_throws:
  assumes "lookup_theme themes name = Undefined" and "0 < treeParticleCount cfg"
  shows "onThemeChange cfg themes src name (app, k)
           = (Threw TypeError, (app \<lparr> state := (state app) \<lparr> theme := name \<rparr> \<rparr>, Suc k))"
proof -
  obtain m where m: "treeParticleCount cfg = Suc m"
    using assms(2) by (cases "treeParticleCount cfg") simp_all
  show ?thesis
    using assms(1)
    by (simp add: onThemeChange_def updateTreeColors_def Let_def m updateTreeColor_Undefined)
qed

theorem unknown_theme_stored_then_recolor_throws_witness:
  "lookup_theme THEMES ''nope'' = Undefined \<and> 0 < treeParticleCount CONFIG
   \<and> onThemeChange CONFIG THEMES zero_draws ''nope'' (app_one, 11)
       = (Threw TypeError, (app_one \<lparr> state := (state app_one) \<lparr> theme := ''nope'' \<rparr> \<rparr>, 12))"
proof -
  have h: "lookup_theme THEMES ''nope'' = Undefined" "0 < treeParticleCount CONFIG"
    by (simp_all add: lookup_nope CONFIG_def)
  show ?thesis
    using h unknown_theme_stored_then_recolor_throws [OF h, of zero_draws app_one 11] by simp
qed

end
